theory Spec2Isabelle
  imports Complex_Main
begin

section \<open>Python values and exceptions\<close>

text \<open>
  The adapter \<^verbatim>\<open>OllamaAgent.__call__\<close> (src/ollama_agent.py) probes the shape of its
  argument at run time (\<^verbatim>\<open>isinstance\<close>, \<^verbatim>\<open>hasattr\<close>), so the inbound payload is a
  value of a universe of Python values. A dict is an association list from string keys to
  values, in insertion order; an object is the association list of its attributes. A float
  is the rational its literal denotes: the code only passes floats on, it never computes
  with them.
\<close>

datatype pyval =
    PNone
  | PBool bool
  | PInt int
  | PFloat rat
  | PStr string
  | PList "pyval list"
  | PTuple "pyval list"
  | PDict "(string \<times> pyval) list"
  | PObj "(string \<times> pyval) list"

text \<open>
  What a Python operation raises: the class of the exception and \<^verbatim>\<open>str(e)\<close>.
  \<open>BaseExceptionOnly\<close> stands for the classes that derive from \<^verbatim>\<open>BaseException\<close> but
  not from \<^verbatim>\<open>Exception\<close> (\<^verbatim>\<open>KeyboardInterrupt\<close>, \<^verbatim>\<open>SystemExit\<close>, \<^verbatim>\<open>GeneratorExit\<close>);
  \<open>OtherException\<close> for every other subclass of \<^verbatim>\<open>Exception\<close>, such as the errors of the
  chat client (connection, authentication, timeout, unknown model).
\<close>

datatype exc_class =
    BaseExceptionOnly
  | ImportError
  | IndexError
  | RuntimeError
  | ValueError
  | OtherException

datatype raised = Raised exc_class string

text \<open>\<^verbatim>\<open>except Exception\<close> catches exactly the classes that derive from \<^verbatim>\<open>Exception\<close>.\<close>

fun isinstance_Exception :: "exc_class \<Rightarrow> bool" where
  "isinstance_Exception BaseExceptionOnly = False"
| "isinstance_Exception ImportError = True"
| "isinstance_Exception IndexError = True"
| "isinstance_Exception RuntimeError = True"
| "isinstance_Exception ValueError = True"
| "isinstance_Exception OtherException = True"

text \<open>\<^verbatim>\<open>except ImportError\<close> catches \<^verbatim>\<open>ImportError\<close> (and \<^verbatim>\<open>ModuleNotFoundError\<close>, its subclass).\<close>

fun isinstance_ImportError :: "exc_class \<Rightarrow> bool" where
  "isinstance_ImportError ImportError = True"
| "isinstance_ImportError BaseExceptionOnly = False"
| "isinstance_ImportError IndexError = False"
| "isinstance_ImportError RuntimeError = False"
| "isinstance_ImportError ValueError = False"
| "isinstance_ImportError OtherException = False"

section \<open>The agent adapter (src/ollama_agent.py)\<close>

subsection \<open>Shape probes\<close>

text \<open>\<^verbatim>\<open>isinstance(v, list)\<close>, \<^verbatim>\<open>isinstance(v, str)\<close>, \<^verbatim>\<open>isinstance(v, dict)\<close>.\<close>

fun isinstance_list :: "pyval \<Rightarrow> bool" where
  "isinstance_list (PList xs) = True"
| "isinstance_list v = False"

fun isinstance_str :: "pyval \<Rightarrow> bool" where
  "isinstance_str (PStr s) = True"
| "isinstance_str v = False"

fun isinstance_dict :: "pyval \<Rightarrow> bool" where
  "isinstance_dict (PDict kvs) = True"
| "isinstance_dict v = False"

text \<open>
  \<^verbatim>\<open>hasattr(v, name)\<close> and \<^verbatim>\<open>v.name\<close>. Only an object carries attributes called
  \<^verbatim>\<open>role\<close> or \<^verbatim>\<open>content\<close>: the built-in types (\<^verbatim>\<open>NoneType\<close>, \<^verbatim>\<open>bool\<close>, \<^verbatim>\<open>int\<close>,
  \<^verbatim>\<open>float\<close>, \<^verbatim>\<open>str\<close>, \<^verbatim>\<open>list\<close>, \<^verbatim>\<open>tuple\<close>, \<^verbatim>\<open>dict\<close>) have neither, and the adapter
  asks for no other name.
\<close>

fun getattr :: "pyval \<Rightarrow> string \<Rightarrow> pyval option" where
  "getattr (PObj attrs) name = map_of attrs name"
| "getattr v name = None"

definition hasattr :: "pyval \<Rightarrow> string \<Rightarrow> bool" where
  "hasattr v name = (getattr v name \<noteq> None)"

subsection \<open>Normalisation of the inbound payload (lines 42 to 53)\<close>

text \<open>The dict literal \<^verbatim>\<open>{"role": r, "content": c}\<close>.\<close>

definition role_content_dict :: "pyval \<Rightarrow> pyval \<Rightarrow> pyval" where
  "role_content_dict r c = PDict [(''role'', r), (''content'', c)]"

text \<open>
  The body of the \<^verbatim>\<open>for msg in messages\<close> loop, run over the elements in order:
  a dict is appended as it is, an object with both attributes is appended as a new
  role/content dict, anything else appends nothing.
\<close>

fun append_formatted :: "pyval list \<Rightarrow> pyval list \<Rightarrow> pyval list" where
  "append_formatted formatted_messages [] = formatted_messages"
| "append_formatted formatted_messages (msg # rest) =
     (if isinstance_dict msg then
        append_formatted (formatted_messages @ [msg]) rest
      else if hasattr msg ''role'' \<and> hasattr msg ''content'' then
        append_formatted
          (formatted_messages @
             [role_content_dict (the (getattr msg ''role'')) (the (getattr msg ''content''))])
          rest
      else append_formatted formatted_messages rest)"

text \<open>The elements of a list payload.\<close>

fun list_items :: "pyval \<Rightarrow> pyval list" where
  "list_items (PList xs) = xs"
| "list_items v = []"

text \<open>
  Lines 42 to 53: \<open>formatted_messages\<close> after the shape dispatch and the fallback, or the
  exception these lines raise. \<open>str\<close> is Python's built-in \<^verbatim>\<open>str\<close> on payloads, taken
  as a parameter: it gives the representation, or the exception \<^verbatim>\<open>str(messages)\<close> raises
  (\<^verbatim>\<open>ValueError\<close> on an \<^verbatim>\<open>int\<close> of more than 4300 digits, \<^verbatim>\<open>RecursionError\<close> on
  deep nesting). It is the only operation of these lines that can raise.
\<close>

definition format_messages ::
  "(pyval \<Rightarrow> raised + string) \<Rightarrow> pyval \<Rightarrow> raised + pyval list" where
  "format_messages str messages =
     (let formatted_messages =
        (if isinstance_list messages then append_formatted [] (list_items messages)
         else if isinstance_str messages then [role_content_dict (PStr ''user'') messages]
         else [])
      in if formatted_messages = []
         then (case str messages of
                 Inl e \<Rightarrow> Inl e
               | Inr s \<Rightarrow> Inr [role_content_dict (PStr ''user'') (PStr s)])
         else Inr formatted_messages)"

subsection \<open>Construction (lines 7 to 10 and 20 to 32)\<close>

text \<open>
  The \<^verbatim>\<open>openai\<close> module as far as the adapter uses it: the constructor
  \<^verbatim>\<open>openai.OpenAI(base_url=..., api_key=...)\<close>, which gives a client handle of some
  type \<open>'c\<close>.
\<close>

record 'c openai_module =
  OpenAI :: "string \<Rightarrow> string \<Rightarrow> 'c"

text \<open>
  Lines 7 to 10: the module-level name \<^verbatim>\<open>openai\<close> is the imported module, or \<^verbatim>\<open>None\<close>
  when the import raises \<^verbatim>\<open>ImportError\<close>; any other exception of the import propagates.
\<close>

definition import_openai :: "raised + 'c openai_module \<Rightarrow> raised + 'c openai_module option" where
  "import_openai imported =
     (case imported of
        Inr lib \<Rightarrow> Inr (Some lib)
      | Inl (Raised cls msg) \<Rightarrow>
          if isinstance_ImportError cls then Inr None else Inl (Raised cls msg))"

text \<open>
  The fields \<^verbatim>\<open>__init__\<close> sets on \<^verbatim>\<open>self\<close>; \<open>metta\<close> and \<open>unwrap\<close> are the
  fields \<^verbatim>\<open>_metta\<close> and \<^verbatim>\<open>_unwrap\<close>.
\<close>

record 'c agent =
  model :: string
  host :: string
  metta :: pyval
  unwrap :: bool
  client :: 'c

definition default_model :: string where
  "default_model = ''llama3''"

definition default_host :: string where
  "default_host = ''http://host.docker.internal:11434''"

text \<open>
  \<^verbatim>\<open>OllamaAgent.__init__\<close>, given the module-level \<^verbatim>\<open>openai\<close>: \<open>Inl\<close> is the
  exception the constructor raises, \<open>Inr\<close> the constructed instance.
\<close>

definition OllamaAgent_init ::
  "'c openai_module option \<Rightarrow> string \<Rightarrow> string \<Rightarrow> raised + 'c agent" where
  "OllamaAgent_init openai model_arg host_arg =
     (case openai of
        None \<Rightarrow> Inl (Raised RuntimeError ''openai library is required. pip install openai'')
      | Some lib \<Rightarrow>
          Inr \<lparr>model = model_arg, host = host_arg, metta = PNone, unwrap = True,
               client = OpenAI lib (host_arg @ ''/v1'') ''ollama''\<rparr>)"

subsection \<open>The call (lines 34 to 62)\<close>

text \<open>
  The keyword arguments of \<^verbatim>\<open>client.chat.completions.create\<close>. The temperature is the
  rational the literal \<^verbatim>\<open>0.7\<close> denotes.
\<close>

record request =
  req_model :: string
  req_messages :: "pyval list"
  req_temperature :: rat

text \<open>What the backend answers: \<^verbatim>\<open>response.choices\<close>, each choice with its \<^verbatim>\<open>message\<close>.\<close>

record choice =
  message :: pyval

record response =
  choices :: "choice list"

text \<open>\<^verbatim>\<open>xs[0]\<close>, which raises \<^verbatim>\<open>IndexError\<close> on an empty list.\<close>

fun index0 :: "'a list \<Rightarrow> raised + 'a" where
  "index0 [] = Inl (Raised IndexError ''list index out of range'')"
| "index0 (x # xs) = Inr x"

text \<open>
  The body of the \<^verbatim>\<open>try\<close> block. \<open>create\<close> is the backend operation
  \<^verbatim>\<open>client.chat.completions.create\<close>: it takes the client handle, the state \<open>w\<close> of
  everything outside the adapter (the client's connections, the network, the server) and
  the request, and gives the response or the exception it raises, with the new outside
  state. When the normalisation raises, the backend is not called and the outside state
  is the one before.
\<close>

definition call_try ::
  "('c \<Rightarrow> 'w \<Rightarrow> request \<Rightarrow> (raised + response) \<times> 'w) \<Rightarrow> (pyval \<Rightarrow> raised + string) \<Rightarrow>
   'c agent \<Rightarrow> pyval \<Rightarrow> 'w \<Rightarrow> (raised + pyval) \<times> 'w" where
  "call_try create str self messages w =
     (case format_messages str messages of
        Inl e \<Rightarrow> (Inl e, w)
      | Inr formatted_messages \<Rightarrow>
          (case create (client self) w
                  \<lparr>req_model = model self, req_messages = formatted_messages,
                   req_temperature = 7 / 10\<rparr> of
             (Inl e, w') \<Rightarrow> (Inl e, w')
           | (Inr response, w') \<Rightarrow>
               (case index0 (choices response) of
                  Inl e \<Rightarrow> (Inl e, w')
                | Inr c \<Rightarrow> (Inr (message c), w'))))"

text \<open>
  \<^verbatim>\<open>OllamaAgent.__call__(self, messages, functions)\<close>: the \<^verbatim>\<open>try\<close> block under
  \<^verbatim>\<open>except Exception as e: return f"Error: {e}"\<close>. The result is what the call returns
  (\<open>Inr\<close>) or the exception that leaves it (\<open>Inl\<close>), the instance after the call, and the
  outside state after the call.
\<close>

definition OllamaAgent_call ::
  "('c \<Rightarrow> 'w \<Rightarrow> request \<Rightarrow> (raised + response) \<times> 'w) \<Rightarrow> (pyval \<Rightarrow> raised + string) \<Rightarrow>
   'c agent \<Rightarrow> pyval \<Rightarrow> pyval \<Rightarrow> 'w \<Rightarrow> (raised + pyval) \<times> 'c agent \<times> 'w" where
  "OllamaAgent_call create str self messages functions w =
     (case call_try create str self messages w of
        (Inr v, w') \<Rightarrow> (Inr v, self, w')
      | (Inl (Raised cls msg), w') \<Rightarrow>
          if isinstance_Exception cls then (Inr (PStr (''Error: '' @ msg)), self, w')
          else (Inl (Raised cls msg), self, w'))"

text \<open>
  An observer for counting backend calls: the same backend, with each request it receives
  appended to a log kept beside the outside state.
\<close>

definition recording ::
  "('c \<Rightarrow> 'w \<Rightarrow> request \<Rightarrow> (raised + response) \<times> 'w) \<Rightarrow>
   'c \<Rightarrow> 'w \<times> request list \<Rightarrow> request \<Rightarrow> (raised + response) \<times> ('w \<times> request list)" where
  "recording create c wl req =
     (case create c (fst wl) req of (answer, w') \<Rightarrow> (answer, (w', snd wl @ [req])))"

section \<open>The transcription command line (src/scripts/whisper_transcribe.py)\<close>

text \<open>
  The parsed arguments. \<^verbatim>\<open>argparse\<close> admits only the two listed choices for
  \<^verbatim>\<open>--task\<close> and \<^verbatim>\<open>--output\<close>.
\<close>

datatype task = Transcribe | Translate

datatype output_format = Json | Text

record args =
  arg_audio_file :: string
  arg_model :: string
  arg_language :: "string option"
  arg_task :: task
  arg_output :: output_format
  arg_initial_prompt :: "string option"

fun task_name :: "task \<Rightarrow> string" where
  "task_name Transcribe = ''transcribe''"
| "task_name Translate = ''translate''"

text \<open>Truth value of an optional string: \<^verbatim>\<open>None\<close> and \<^verbatim>\<open>""\<close> are false.\<close>

fun truthy :: "string option \<Rightarrow> bool" where
  "truthy None = False"
| "truthy (Some s) = (s \<noteq> [])"

text \<open>
  What \<^verbatim>\<open>model.transcribe\<close> returns: a dict with \<^verbatim>\<open>text\<close>, and possibly
  \<^verbatim>\<open>language\<close> and \<^verbatim>\<open>segments\<close> (the code reads these two with \<^verbatim>\<open>get\<close>).
\<close>

record segment =
  seg_start :: rat
  seg_end :: rat
  seg_text :: string

record transcription =
  res_text :: string
  res_language :: "string option"
  res_segments :: "segment list option"

text \<open>
  The \<^verbatim>\<open>whisper\<close> module as far as the script uses it: \<^verbatim>\<open>load_model(name)\<close> and the
  loaded model's \<^verbatim>\<open>transcribe(audio_file, **options)\<close>.
\<close>

record 'm whisper_module =
  load_model :: "string \<Rightarrow> raised + 'm"
  transcribe :: "'m \<Rightarrow> string \<Rightarrow> (string \<times> pyval) list \<Rightarrow> raised + transcription"

text \<open>
  A printed line: \<^verbatim>\<open>print(json.dumps(v, ensure_ascii=b))\<close> prints the JSON document of
  \<open>v\<close>, recorded as \<open>JsonLine b v\<close>; \<^verbatim>\<open>print(s)\<close> prints the text \<open>s\<close>.
\<close>

datatype line = JsonLine bool pyval | TextLine string

record process_result =
  stdout :: "line list"
  stderr :: "line list"
  exit_status :: nat

text \<open>Lines 37 to 46: the options passed to \<^verbatim>\<open>transcribe\<close>.\<close>

definition transcribe_options :: "args \<Rightarrow> (string \<times> pyval) list" where
  "transcribe_options a =
     [(''task'', PStr (task_name (arg_task a))), (''verbose'', PBool False)]
     @ (if truthy (arg_language a) then [(''language'', PStr (the (arg_language a)))] else [])
     @ (if truthy (arg_initial_prompt a)
        then [(''initial_prompt'', PStr (the (arg_initial_prompt a)))] else [])"

text \<open>Lines 51 to 62: the dict printed in json mode. \<open>strip\<close> is Python's \<^verbatim>\<open>str.strip\<close>.\<close>

definition segment_dict :: "(string \<Rightarrow> string) \<Rightarrow> segment \<Rightarrow> pyval" where
  "segment_dict strip seg =
     PDict [(''start'', PFloat (seg_start seg)), (''end'', PFloat (seg_end seg)),
            (''text'', PStr (strip (seg_text seg)))]"

definition output_dict :: "(string \<Rightarrow> string) \<Rightarrow> transcription \<Rightarrow> pyval" where
  "output_dict strip result =
     PDict [(''text'', PStr (strip (res_text result))),
            (''language'', PStr (case res_language result of None \<Rightarrow> ''unknown'' | Some l \<Rightarrow> l)),
            (''segments'', PList (map (segment_dict strip)
               (case res_segments result of None \<Rightarrow> [] | Some segs \<Rightarrow> segs)))]"

text \<open>
  \<^verbatim>\<open>print\<close> on lines 63 and 65 writes recognised text on standard output and raises
  \<^verbatim>\<open>UnicodeEncodeError\<close> when the stream's encoding lacks one of its characters:
  \<open>print_stdout\<close> gives the exception raised, or \<open>None\<close> when the line is written. The
  other three \<^verbatim>\<open>print\<close> calls write ASCII-only JSON (\<^verbatim>\<open>ensure_ascii\<close> is true) or write
  on standard error, which replaces what it cannot encode.
\<close>

definition print_line :: "(line \<Rightarrow> raised option) \<Rightarrow> line \<Rightarrow> raised + line" where
  "print_line print_stdout l = (case print_stdout l of Some e \<Rightarrow> Inl e | None \<Rightarrow> Inr l)"

text \<open>
  Lines 33 to 65, the body of the \<^verbatim>\<open>try\<close> block: the line it prints on standard
  output, or the exception it raises.
\<close>

definition main_try ::
  "(string \<Rightarrow> string) \<Rightarrow> (line \<Rightarrow> raised option) \<Rightarrow> 'm whisper_module \<Rightarrow> args \<Rightarrow>
   raised + line" where
  "main_try strip print_stdout whisper a =
     (case load_model whisper (arg_model a) of
        Inl e \<Rightarrow> Inl e
      | Inr model' \<Rightarrow>
          (case transcribe whisper model' (arg_audio_file a) (transcribe_options a) of
             Inl e \<Rightarrow> Inl e
           | Inr result \<Rightarrow>
               if arg_output a = Json
               then print_line print_stdout (JsonLine False (output_dict strip result))
               else print_line print_stdout (TextLine (strip (res_text result)))))"

text \<open>
  \<^verbatim>\<open>main()\<close> after \<^verbatim>\<open>parse_args\<close>: \<open>imported\<close> is what \<^verbatim>\<open>import whisper\<close> gives.
  \<open>Inr\<close> is the finished process (what it printed and its exit status), \<open>Inl\<close> an
  exception no handler of \<^verbatim>\<open>main\<close> catches.
\<close>

definition main ::
  "(string \<Rightarrow> string) \<Rightarrow> (line \<Rightarrow> raised option) \<Rightarrow> raised + 'm whisper_module \<Rightarrow> args \<Rightarrow>
   raised + process_result" where
  "main strip print_stdout imported a =
     (case imported of
        Inl (Raised cls msg) \<Rightarrow>
          if isinstance_ImportError cls then
            Inr \<lparr>stdout = [],
                 stderr = [JsonLine True
                   (PDict [(''error'', PStr ''whisper not installed. Run: pip install openai-whisper'')])],
                 exit_status = 1\<rparr>
          else Inl (Raised cls msg)
      | Inr whisper \<Rightarrow>
          (case main_try strip print_stdout whisper a of
             Inr printed \<Rightarrow> Inr \<lparr>stdout = [printed], stderr = [], exit_status = 0\<rparr>
           | Inl (Raised cls msg) \<Rightarrow>
               if isinstance_Exception cls then
                 (if arg_output a = Json then
                    Inr \<lparr>stdout = [JsonLine True (PDict [(''error'', PStr msg)])],
                         stderr = [], exit_status = 1\<rparr>
                  else
                    Inr \<lparr>stdout = [], stderr = [TextLine (''Error: '' @ msg)],
                         exit_status = 1\<rparr>)
               else Inl (Raised cls msg)))"

section \<open>Notions used to state the properties\<close>

text \<open>
  The role/content shape of the specification: an element exposes \<^verbatim>\<open>role\<close> and
  \<^verbatim>\<open>content\<close> as mapping fields (a dict with both keys) or as named attributes.
\<close>

fun has_key :: "pyval \<Rightarrow> string \<Rightarrow> bool" where
  "has_key (PDict kvs) k = (map_of kvs k \<noteq> None)"
| "has_key v k = False"

definition exposes_role_content :: "pyval \<Rightarrow> bool" where
  "exposes_role_content e =
     ((has_key e ''role'' \<and> has_key e ''content'') \<or>
      (hasattr e ''role'' \<and> hasattr e ''content''))"

text \<open>The value an element exposes under a name, as a mapping field or as an attribute.\<close>

fun field_of :: "pyval \<Rightarrow> string \<Rightarrow> pyval option" where
  "field_of (PDict kvs) k = map_of kvs k"
| "field_of (PObj attrs) k = map_of attrs k"
| "field_of v k = None"

definition role_and_content :: "pyval \<Rightarrow> pyval option \<times> pyval option" where
  "role_and_content e = (field_of e ''role'', field_of e ''content'')"


text \<open>Ordered sequences: lists and tuples, with their elements.\<close>

fun is_sequence :: "pyval \<Rightarrow> bool" where
  "is_sequence (PList xs) = True"
| "is_sequence (PTuple xs) = True"
| "is_sequence v = False"

fun sequence_items :: "pyval \<Rightarrow> pyval list" where
  "sequence_items (PList xs) = xs"
| "sequence_items (PTuple xs) = xs"
| "sequence_items v = []"

text \<open>
  The fallback of lines 52 and 53: the one message
  \<^verbatim>\<open>{"role": "user", "content": str(messages)}\<close>, or the exception \<^verbatim>\<open>str(messages)\<close>
  raises.
\<close>

definition fallback_messages :: "(pyval \<Rightarrow> raised + string) \<Rightarrow> pyval \<Rightarrow> raised + pyval list" where
  "fallback_messages str messages =
     (case str messages of
        Inl e \<Rightarrow> Inl e
      | Inr s \<Rightarrow> Inr [PDict [(''role'', PStr ''user''), (''content'', PStr s)]])"

text \<open>
  Python's \<^verbatim>\<open>str\<close> on the values an evaluation needs, given by a table of values with
  what \<^verbatim>\<open>str\<close> gives on them: the representation, or the exception raised.
\<close>

definition str_table :: "(pyval \<times> (raised + string)) list \<Rightarrow> pyval \<Rightarrow> raised + string" where
  "str_table table v = (case map_of table v of Some r \<Rightarrow> r | None \<Rightarrow> Inr [])"



text \<open>
  Two backends to run the adapter against. Their outside state is the number of requests
  received so far. The first raises the given exception on every request; the second
  answers every request with the given messages, one choice each.
\<close>

definition raising_backend ::
  "raised \<Rightarrow> 'c \<Rightarrow> nat \<Rightarrow> request \<Rightarrow> (raised + response) \<times> nat" where
  "raising_backend e c w req = (Inl e, Suc w)"

definition answering_backend ::
  "pyval list \<Rightarrow> 'c \<Rightarrow> nat \<Rightarrow> request \<Rightarrow> (raised + response) \<times> nat" where
  "answering_backend answers c w req =
     (Inr \<lparr>choices = map (\<lambda>m. \<lparr>message = m\<rparr>) answers\<rparr>, Suc w)"

text \<open>An instance as \<^verbatim>\<open>OllamaAgent()\<close> constructs it, the client handle being its arguments.\<close>

definition default_agent :: "(string \<times> string) agent" where
  "default_agent =
     \<lparr>model = default_model, host = default_host, metta = PNone, unwrap = True,
      client = (default_host @ ''/v1'', ''ollama'')\<rparr>"

section \<open>Properties of the loop and of the normalisation\<close>

lemma append_formatted_acc:
  "append_formatted acc xs = acc @ append_formatted [] xs"
proof (induction xs arbitrary: acc)
  case Nil
  show ?case by simp
next
  case (Cons msg rest)
  let ?m = "role_content_dict (the (getattr msg ''role'')) (the (getattr msg ''content''))"
  show ?case
    using Cons.IH [of "acc @ [msg]"] Cons.IH [of "[msg]"]
      Cons.IH [of "acc @ [?m]"] Cons.IH [of "[?m]"] Cons.IH [of acc]
    by simp
qed




lemma format_messages_list:
  "format_messages str (PList xs) =
     (if append_formatted [] xs = [] then fallback_messages str (PList xs)
      else Inr (append_formatted [] xs))"
  by (simp add: format_messages_def fallback_messages_def role_content_dict_def Let_def
      split: sum.splits)


lemma role_and_content_exposed:
  "exposes_role_content e \<Longrightarrow> \<not> isinstance_dict e \<Longrightarrow>
   role_and_content (role_content_dict (the (getattr e ''role'')) (the (getattr e ''content'')))
     = role_and_content e"
  by (cases e)
    (auto simp: exposes_role_content_def role_and_content_def role_content_dict_def hasattr_def)

lemma append_formatted_valid:
  "list_all exposes_role_content es \<Longrightarrow>
   map role_and_content (append_formatted [] es) = map role_and_content es
   \<and> list_all isinstance_dict (append_formatted [] es)"
proof (induction es)
  case Nil
  show ?case by simp
next
  case (Cons e es)
  then have e: "exposes_role_content e" and rest: "list_all exposes_role_content es"
    by simp_all
  note IH = Cons.IH [OF rest]
  show ?case
  proof (cases "isinstance_dict e")
    case True
    then have "append_formatted [] (e # es) = e # append_formatted [] es"
      using append_formatted_acc [of "[e]" es] by simp
    with IH True show ?thesis by simp
  next
    case False
    with e have h: "hasattr e ''role'' \<and> hasattr e ''content''"
      by (cases e) (auto simp: exposes_role_content_def)
    let ?m = "role_content_dict (the (getattr e ''role'')) (the (getattr e ''content''))"
    have "append_formatted [] (e # es) = ?m # append_formatted [] es"
      using False h append_formatted_acc [of "[?m]" es] by simp
    moreover have "isinstance_dict ?m" by (simp add: role_content_dict_def)
    ultimately show ?thesis
      using IH role_and_content_exposed [OF e False] by simp
  qed
qed

section \<open>The adapter's contract\<close>

text \<open>
  Claim C1. For every inbound payload, if the backend chat-completion call raises an
  exception, \<^verbatim>\<open>__call__\<close> does not raise: it returns the string
  \<^verbatim>\<open>"Error: <details>"\<close>, the details being \<^verbatim>\<open>str(e)\<close>. The backend is called with the
  normalised messages \<open>formatted\<close>. The exception is an instance of \<^verbatim>\<open>Exception\<close>, as the
  failures of a backend are (unreachable host, authentication failure, unknown model,
  timeout): that is what \<^verbatim>\<open>except Exception\<close> catches.
\<close>

theorem call_backend_exception_returns_error_string:
  assumes "format_messages str messages = Inr formatted"
    and "create (client self) w
             \<lparr>req_model = model self, req_messages = formatted,
              req_temperature = 7 / 10\<rparr> = (Inl (Raised cls msg), w')"
    and "isinstance_Exception cls"
  shows "fst (OllamaAgent_call create str self messages functions w)
           = Inr (PStr (''Error: '' @ msg))"
  using assms by (simp add: OllamaAgent_call_def call_try_def)

theorem call_backend_exception_witness:
  "format_messages (str_table []) (PStr ''Hello'') = Inr [PDict [(''role'', PStr ''user''), (''content'', PStr ''Hello'')]]
   \<and> raising_backend (Raised OtherException ''Connection error.'') (client default_agent) 0
     \<lparr>req_model = model default_agent,
      req_messages = [PDict [(''role'', PStr ''user''), (''content'', PStr ''Hello'')]],
      req_temperature = 7 / 10\<rparr>
     = (Inl (Raised OtherException ''Connection error.''), Suc 0)
   \<and> isinstance_Exception OtherException
   \<and> fst (OllamaAgent_call (raising_backend (Raised OtherException ''Connection error.''))
            (str_table []) default_agent (PStr ''Hello'') (PList []) 0)
       = Inr (PStr ''Error: Connection error.'')"
  using call_backend_exception_returns_error_string
    [where create = "raising_backend (Raised OtherException ''Connection error.'')"
      and self = default_agent and w = 0 and str = "str_table []"
      and messages = "PStr ''Hello''"
      and formatted = "[PDict [(''role'', PStr ''user''), (''content'', PStr ''Hello'')]]"
      and cls = OtherException
      and msg = "''Connection error.''" and w' = "Suc 0"]
  by (simp add: raising_backend_def format_messages_def role_content_dict_def)

text \<open>
  A response without choices (a malformed answer) ends the same way: \<^verbatim>\<open>choices[0]\<close> raises
  \<^verbatim>\<open>IndexError\<close> inside the \<^verbatim>\<open>try\<close> block.
\<close>

lemma call_empty_choices:
  assumes "format_messages str messages = Inr formatted"
    and "create (client self) w
             \<lparr>req_model = model self, req_messages = formatted,
              req_temperature = 7 / 10\<rparr> = (Inr resp, w')"
    and "choices resp = []"
  shows "fst (OllamaAgent_call create str self messages functions w)
           = Inr (PStr ''Error: list index out of range'')"
  using assms by (simp add: OllamaAgent_call_def call_try_def)

text \<open>
  So does an exception of the normalisation, \<^verbatim>\<open>str(messages)\<close> raising on line 53: the
  handler returns the error string, and the backend has not been called.
\<close>

lemma call_normalisation_exception:
  assumes "format_messages str messages = Inl (Raised cls msg)"
    and "isinstance_Exception cls"
  shows "OllamaAgent_call create str self messages functions w
           = (Inr (PStr (''Error: '' @ msg)), self, w)"
  using assms by (simp add: OllamaAgent_call_def call_try_def)







text \<open>
  Claim C4, as the code has it. For every payload that is a non-empty Python list whose
  elements all expose role and content (as keys of a dict or as attributes of an object),
  the normalisation does not raise and is what the loop has appended: a sequence of dicts
  with the same role and content values, element by element and in the same order.
\<close>

theorem list_of_records_kept_in_order:
  assumes "es \<noteq> []" and "list_all exposes_role_content es"
  shows "format_messages str (PList es) = Inr (append_formatted [] es)
         \<and> map role_and_content (append_formatted [] es) = map role_and_content es
         \<and> list_all isinstance_dict (append_formatted [] es)"
proof -
  have v: "map role_and_content (append_formatted [] es) = map role_and_content es"
    and d: "list_all isinstance_dict (append_formatted [] es)"
    using append_formatted_valid [OF assms(2)] by simp_all
  from v assms(1) have "append_formatted [] es \<noteq> []" by auto
  then have "format_messages str (PList es) = Inr (append_formatted [] es)"
    by (simp add: format_messages_list)
  with v d show ?thesis by simp
qed

theorem list_of_records_witness:
  "[PDict [(''role'', PStr ''system''), (''content'', PStr ''Be terse'')],
    PObj [(''role'', PStr ''user''), (''content'', PStr ''Hi'')]] \<noteq> []
   \<and> list_all exposes_role_content
        [PDict [(''role'', PStr ''system''), (''content'', PStr ''Be terse'')],
         PObj [(''role'', PStr ''user''), (''content'', PStr ''Hi'')]]
   \<and> format_messages (str_table [])
        (PList [PDict [(''role'', PStr ''system''), (''content'', PStr ''Be terse'')],
                PObj [(''role'', PStr ''user''), (''content'', PStr ''Hi'')]])
       = Inr [PDict [(''role'', PStr ''system''), (''content'', PStr ''Be terse'')],
              PDict [(''role'', PStr ''user''), (''content'', PStr ''Hi'')]]
   \<and> map role_and_content
        [PDict [(''role'', PStr ''system''), (''content'', PStr ''Be terse'')],
         PDict [(''role'', PStr ''user''), (''content'', PStr ''Hi'')]]
       = map role_and_content
        [PDict [(''role'', PStr ''system''), (''content'', PStr ''Be terse'')],
         PObj [(''role'', PStr ''user''), (''content'', PStr ''Hi'')]]
   \<and> map role_and_content
        [PDict [(''role'', PStr ''system''), (''content'', PStr ''Be terse'')],
         PObj [(''role'', PStr ''user''), (''content'', PStr ''Hi'')]]
       = [(Some (PStr ''system''), Some (PStr ''Be terse'')),
          (Some (PStr ''user''), Some (PStr ''Hi''))]"
  using list_of_records_kept_in_order
    [where str = "str_table []"
      and es = "[PDict [(''role'', PStr ''system''), (''content'', PStr ''Be terse'')],
                 PObj [(''role'', PStr ''user''), (''content'', PStr ''Hi'')]]"]
  by (simp add: exposes_role_content_def hasattr_def role_and_content_def
      role_content_dict_def)

text \<open>
  Claim C4 as stated fails on an ordered sequence that is not a list: a tuple of two valid
  role/content dicts is normalised to the single fallback message.
\<close>

theorem tuple_of_records_gives_fallback:
  "is_sequence (PTuple [PDict [(''role'', PStr ''system''), (''content'', PStr ''Be terse'')],
                 PDict [(''role'', PStr ''user''), (''content'', PStr ''Hi'')]])
   \<and> list_all exposes_role_content (sequence_items
        (PTuple [PDict [(''role'', PStr ''system''), (''content'', PStr ''Be terse'')],
                 PDict [(''role'', PStr ''user''), (''content'', PStr ''Hi'')]]))
   \<and> format_messages
        (str_table
          [(PTuple [PDict [(''role'', PStr ''system''), (''content'', PStr ''Be terse'')],
                 PDict [(''role'', PStr ''user''), (''content'', PStr ''Hi'')]],
            Inr ''({'role': 'system', 'content': 'Be terse'}, {'role': 'user', 'content': 'Hi'})'')])
        (PTuple [PDict [(''role'', PStr ''system''), (''content'', PStr ''Be terse'')],
                 PDict [(''role'', PStr ''user''), (''content'', PStr ''Hi'')]])
       = Inr [PDict [(''role'', PStr ''user''),
                     (''content'', PStr
            ''({'role': 'system', 'content': 'Be terse'}, {'role': 'user', 'content': 'Hi'})'')]]
   \<and> map role_and_content
        [PDict [(''role'', PStr ''user''),
                (''content'', PStr
            ''({'role': 'system', 'content': 'Be terse'}, {'role': 'user', 'content': 'Hi'})'')]]
       \<noteq> map role_and_content (sequence_items
        (PTuple [PDict [(''role'', PStr ''system''), (''content'', PStr ''Be terse'')],
                 PDict [(''role'', PStr ''user''), (''content'', PStr ''Hi'')]]))"
  by (simp add: exposes_role_content_def format_messages_def role_content_dict_def
      role_and_content_def str_table_def)

text \<open>
  Claim C5. For every payload that is a single text value, the normalisation is exactly
  one message, with role \<^verbatim>\<open>"user"\<close> and that text as content.
\<close>

theorem text_payload_single_user_message:
  "format_messages str (PStr s)
     = Inr [PDict [(''role'', PStr ''user''), (''content'', PStr s)]]"
  by (simp add: format_messages_def role_content_dict_def)

text \<open>
  Claim C6. For every payload, when the backend call succeeds and the response has a first
  choice, \<^verbatim>\<open>__call__\<close> returns that choice's message unchanged, and the outside state is
  the one after that single call. Run against the recording backend, the log holds exactly
  one request: the instance's model, the normalised messages \<open>formatted\<close> and the
  temperature 0.7.
\<close>

theorem call_success_one_request_first_choice:
  assumes "format_messages str messages = Inr formatted"
    and "create (client self) w
             \<lparr>req_model = model self, req_messages = formatted,
              req_temperature = 7 / 10\<rparr> = (Inr resp, w')"
    and "choices resp = c # cs"
  shows "OllamaAgent_call create str self messages functions w = (Inr (message c), self, w')
         \<and> snd (snd (OllamaAgent_call (recording create) str self messages functions (w, [])))
             = (w', [\<lparr>req_model = model self, req_messages = formatted,
                       req_temperature = 7 / 10\<rparr>])"
  using assms by (simp add: OllamaAgent_call_def call_try_def recording_def)

theorem call_success_witness:
  "format_messages (str_table []) (PStr ''Hello, how are you?'') = Inr [PDict [(''role'', PStr ''user''), (''content'', PStr ''Hello, how are you?'')]]
   \<and> answering_backend [PObj [(''role'', PStr ''assistant''), (''content'', PStr ''I'm fine'')]]
     (client default_agent) 0
     \<lparr>req_model = model default_agent,
      req_messages = [PDict [(''role'', PStr ''user''), (''content'', PStr ''Hello, how are you?'')]],
      req_temperature = 7 / 10\<rparr>
     = (Inr \<lparr>choices = [\<lparr>message = PObj [(''role'', PStr ''assistant''), (''content'', PStr ''I'm fine'')]\<rparr>]\<rparr>, Suc 0)
   \<and> choices \<lparr>choices = [\<lparr>message = PObj [(''role'', PStr ''assistant''), (''content'', PStr ''I'm fine'')]\<rparr>]\<rparr>
       = [\<lparr>message = PObj [(''role'', PStr ''assistant''), (''content'', PStr ''I'm fine'')]\<rparr>]
   \<and> OllamaAgent_call (answering_backend [PObj [(''role'', PStr ''assistant''), (''content'', PStr ''I'm fine'')]])
         (str_table []) default_agent (PStr ''Hello, how are you?'') (PList []) 0
       = (Inr (PObj [(''role'', PStr ''assistant''), (''content'', PStr ''I'm fine'')]), default_agent, Suc 0)
   \<and> snd (snd (OllamaAgent_call (recording (answering_backend [PObj [(''role'', PStr ''assistant''), (''content'', PStr ''I'm fine'')]]))
         (str_table []) default_agent (PStr ''Hello, how are you?'') (PList []) (0, [])))
       = (Suc 0,
          [\<lparr>req_model = ''llama3'',
            req_messages = [PDict [(''role'', PStr ''user''), (''content'', PStr ''Hello, how are you?'')]],
            req_temperature = 7 / 10\<rparr>])"
  using call_success_one_request_first_choice
    [where create = "answering_backend [PObj [(''role'', PStr ''assistant''), (''content'', PStr ''I'm fine'')]]"
      and self = default_agent and w = 0 and str = "str_table []"
      and messages = "PStr ''Hello, how are you?''"
      and formatted = "[PDict [(''role'', PStr ''user''), (''content'', PStr ''Hello, how are you?'')]]"
      and resp = "\<lparr>choices = [\<lparr>message = PObj [(''role'', PStr ''assistant''), (''content'', PStr ''I'm fine'')]\<rparr>]\<rparr>"
      and w' = "Suc 0"
      and c = "\<lparr>message = PObj [(''role'', PStr ''assistant''), (''content'', PStr ''I'm fine'')]\<rparr>"
      and cs = "[]"]
  by (simp add: answering_backend_def default_agent_def default_model_def
      format_messages_def role_content_dict_def)

text \<open>
  Claim C7. When the \<^verbatim>\<open>openai\<close> library is unavailable, the module-level name is
  \<^verbatim>\<open>None\<close> and constructing an instance raises \<^verbatim>\<open>RuntimeError\<close>, whatever the model and
  host: no instance exists on which a call could be made.
\<close>

theorem init_without_openai_raises:
  "import_openai (Inl (Raised ImportError msg)) = Inr None
   \<and> OllamaAgent_init None model_arg host_arg
       = Inl (Raised RuntimeError ''openai library is required. pip install openai'')"
  by (simp add: import_openai_def OllamaAgent_init_def)

text \<open>With the library present the constructor gives the instance, bound to its client.\<close>

lemma init_with_openai:
  "OllamaAgent_init (Some \<lparr>OpenAI = Pair\<rparr>) default_model default_host = Inr default_agent"
  by (simp add: OllamaAgent_init_def default_agent_def)

text \<open>
  Claim C9. For every payload, the instance after \<^verbatim>\<open>__call__\<close> is the instance before
  it, with the same model, host and client handle, whether the call returns the message,
  returns the error string, or lets an exception through.
\<close>

theorem call_leaves_instance_unchanged:
  "fst (snd (OllamaAgent_call create str self messages functions w)) = self"
  by (simp add: OllamaAgent_call_def split: prod.splits sum.splits raised.splits)

text \<open>
  Claim C10. For every payload, two calls that differ only in the \<^verbatim>\<open>functions\<close> argument
  give the same result, the same instance and the same outside state, for every backend;
  for the recording backend this includes the same log of requests.
\<close>

theorem call_ignores_functions:
  "OllamaAgent_call create str self messages functions1 w
     = OllamaAgent_call create str self messages functions2 w"
  by (simp add: OllamaAgent_call_def)

section \<open>The error paths of the transcription command line\<close>

text \<open>
  A failure inside the \<^verbatim>\<open>try\<close> block (loading the model, transcribing the file, printing
  the result) ends with exit status 1 and the encoding of the selected output mode: the
  JSON object with the key \<^verbatim>\<open>error\<close> in json mode, the text \<^verbatim>\<open>Error: <message>\<close> in
  text mode.
\<close>

lemma main_try_failure_follows_output_mode:
  assumes "main_try strip print_stdout whisper a = Inl (Raised cls msg)"
    and "isinstance_Exception cls"
  shows "main strip print_stdout (Inr whisper) a =
           (if arg_output a = Json
            then Inr \<lparr>stdout = [JsonLine True (PDict [(''error'', PStr msg)])],
                      stderr = [], exit_status = 1\<rparr>
            else Inr \<lparr>stdout = [], stderr = [TextLine (''Error: '' @ msg)],
                      exit_status = 1\<rparr>)"
  using assms by (simp add: main_def)

text \<open>A \<^verbatim>\<open>print\<close> that raises after a successful transcription is such a failure.\<close>

lemma main_try_print_raises:
  assumes "load_model whisper (arg_model a) = Inr m"
    and "transcribe whisper m (arg_audio_file a) (transcribe_options a) = Inr result"
    and "\<And>l. print_stdout l = Some e"
  shows "main_try strip print_stdout whisper a = Inl e"
  using assms by (simp add: main_try_def print_line_def)

text \<open>
  Claim C8, at the input where the code departs from it. With \<^verbatim>\<open>--output text\<close> and the
  \<^verbatim>\<open>whisper\<close> package missing, the process exits with status 1 but prints the JSON
  object on standard error, not the text \<^verbatim>\<open>Error: <message>\<close>.
\<close>

theorem main_missing_whisper_text_mode_prints_json:
  "main strip print_stdout (Inl (Raised ImportError msg)) (a\<lparr>arg_output := Text\<rparr>)
     = Inr \<lparr>stdout = [],
            stderr = [JsonLine True
              (PDict [(''error'',
                       PStr ''whisper not installed. Run: pip install openai-whisper'')])],
            exit_status = 1\<rparr>"
  by (simp add: main_def)

end
